theory Spec2Isabelle
  imports Main
begin

section \<open>Data model\<close>

text \<open>
  Transactions, parsed token messages and the wallet tables, as the Python sources use them.
  The token-message parser (\<open>SlpMessage.parseSlpOutputScript\<close>) and the address classes
  are collaborators outside these sources: every transaction output carries the outcome
  the parser has on its script (\<open>out_slp\<close>) and the \<open>kind\<close> of its destination.
\<close>

type_synonym txid = string

datatype tx_type = GENESIS | MINT | SEND | COMMIT

text \<open>\<open>op_return_fields\<close> of a parsed message, with \<open>token_type\<close> and \<open>transaction_type\<close>.\<close>

record slp_msg =
  token_type :: int
  transaction_type :: tx_type
  token_id_hex :: txid
  token_output :: "int list"
  mint_baton_vout :: "nat option"
  decimals :: int
  initial_token_mint_quantity :: int
  additional_token_quantity :: int

text \<open>
  The parser returns a message or raises one of the two subclasses of \<open>SlpParsingError\<close>.
\<close>

datatype parse = Parsed slp_msg | SlpInvalidOutputMessage | SlpUnsupportedSlpTokenType

datatype addr_kind = ADDR_P2PKH | ADDR_P2SH | ADDR_OTHER

text \<open>An output \<open>(type, destination, value)\<close>: \<open>out[0]\<close> is \<open>out_type\<close>, \<open>out[1].kind\<close> is \<open>out_kind\<close>.\<close>

record txout =
  out_type :: int
  out_kind :: addr_kind
  out_slp :: parse

record txin =
  address :: string
  prevout_hash :: txid
  prevout_n :: nat

record tx =
  txid_fast :: txid
  inputs :: "txin list"
  outputs :: "txout list"

text \<open>A token quantity is an integer or the marker \<open>'MINT_BATON'\<close>.\<close>

datatype qty = Qty int | MINT_BATON

record slp_txo_rec =
  token_id :: txid
  qty :: qty

text \<open>
  \<open>wallet.transactions\<close> and the nested dictionary \<open>wallet._slp_txo[addr][prev_out][prev_n]\<close>;
  a \<open>KeyError\<close> at any level is \<open>None\<close>.
\<close>

record wallet =
  transactions :: "txid \<rightharpoonup> tx"
  slp_txo :: "string \<times> txid \<times> nat \<rightharpoonup> slp_txo_rec"

text \<open>A coin of \<open>coins_to_burn\<close>; the keys \<open>is_in_txn\<close> and \<open>token_value\<close> may be absent.\<close>

record coin =
  c_prevout_hash :: txid
  c_prevout_n :: nat
  is_in_txn :: "bool option"
  token_value :: "qty option"

text \<open>
  The argument \<open>amt_to_burn\<close>: \<open>None\<close>, an integer, or any other object, of which only
  the truth value matters.
\<close>

datatype pyval = PyNone | PyInt int | PyOther bool

fun is_int :: "pyval \<Rightarrow> bool" where
  "is_int (PyInt _) = True"
| "is_int _ = False"

fun truthy :: "pyval \<Rightarrow> bool" where
  "truthy PyNone = False"
| "truthy (PyInt n) = (n \<noteq> 0)"
| "truthy (PyOther b) = b"

fun truthy_coins :: "coin list option \<Rightarrow> bool" where
  "truthy_coins None = False"
| "truthy_coins (Some cs) = (cs \<noteq> [])"

fun coins_list :: "coin list option \<Rightarrow> coin list" where
  "coins_list None = []"
| "coins_list (Some cs) = cs"

text \<open>The network configuration and the external pre-flight oracle.\<close>

record net =
  SLP_PREFLIGHT_CHECK :: bool
  preflight_ok :: "tx \<Rightarrow> coin list option \<Rightarrow> pyval \<Rightarrow> bool"

datatype error =
    InvalidBurnAmount
  | TxNotInWallet
  | UnsupportedSlpTokenType
  | SlpMissingInputRecord
  | NonSlpTransactionHasSlpInputs
  | MissingCoinToBeBurned
  | SlpWrongTokenID
  | SlpInputsTooLow
  | SlpInputsTooHigh
  | SlpNonMintInput
  | MissingMintBatonOutpoint
  | MissingTokenReceiverOutpoint
  | BadSlpOutpointType
  | PreflightFailed
  | IndexError
  | AssertionError
  | TypeError
  | AttributeError
  | KeyError
  | RuntimeError
  | Exception
  | ParsingError

section \<open>The precondition checker: \<open>SlpTransactionChecker.check_tx_slp\<close>\<close>

definition txo_key :: "txin \<Rightarrow> string \<times> txid \<times> nat" where
  "txo_key txo = (address txo, prevout_hash txo, prevout_n txo)"

definition p2pkh_or_p2sh :: "txout \<Rightarrow> bool" where
  "p2pkh_or_p2sh out = (out_kind out = ADDR_P2PKH \<or> out_kind out = ADDR_P2SH)"

subsection \<open>Step 1: every token-bearing input is recorded in the wallet\<close>

text \<open>
  The branches that \<open>continue\<close>: the spent outpoint of the source transaction carries no
  token value.
\<close>

definition input_skipped :: "slp_msg \<Rightarrow> nat \<Rightarrow> bool" where
  "input_skipped m prev_n =
     (case transaction_type m of
        SEND \<Rightarrow> (if prev_n \<ge> length (token_output m) then True
                 else token_output m ! prev_n = 0)
      | COMMIT \<Rightarrow> False
      | _ \<Rightarrow>
         (let baton = (case mint_baton_vout m of None \<Rightarrow> 0 | Some b \<Rightarrow> b) in
          if baton \<noteq> 0 \<and> prev_n \<noteq> 1 \<and> prev_n \<noteq> baton then True
          else if baton = 0 \<and> prev_n \<noteq> 1 then True
          else if transaction_type m = MINT \<and> prev_n = 1
                  \<and> additional_token_quantity m = 0 then True
          else transaction_type m = GENESIS \<and> prev_n = 1
                  \<and> initial_token_mint_quantity m = 0))"

fun check_inputs_in_wallet :: "wallet \<Rightarrow> txin list \<Rightarrow> error + unit" where
  "check_inputs_in_wallet w [] = Inr ()"
| "check_inputs_in_wallet w (txo # rest) =
     (case transactions w (prevout_hash txo) of
        None \<Rightarrow> Inl TxNotInWallet
      | Some input_tx \<Rightarrow>
         (case outputs input_tx of
            [] \<Rightarrow> Inl IndexError
          | out0 # _ \<Rightarrow>
             (case out_slp out0 of
                SlpInvalidOutputMessage \<Rightarrow> check_inputs_in_wallet w rest
              | SlpUnsupportedSlpTokenType \<Rightarrow> Inl UnsupportedSlpTokenType
              | Parsed m \<Rightarrow>
                 if input_skipped m (prevout_n txo) then check_inputs_in_wallet w rest
                 else (case slp_txo w (txo_key txo) of
                         None \<Rightarrow> Inl SlpMissingInputRecord
                       | Some _ \<Rightarrow> check_inputs_in_wallet w rest))))"

subsection \<open>Step 3a: a transaction without token message\<close>

definition coin_matches :: "txin \<Rightarrow> coin \<Rightarrow> bool" where
  "coin_matches txo c = (c_prevout_hash c = prevout_hash txo \<and> c_prevout_n c = prevout_n txo)"

definition is_burn_allowed :: "coin list \<Rightarrow> txin \<Rightarrow> bool" where
  "is_burn_allowed cs txo = list_ex (coin_matches txo) cs"

definition mark_in_txn :: "coin list \<Rightarrow> txin \<Rightarrow> coin list" where
  "mark_in_txn cs txo =
     map (\<lambda>c. if coin_matches txo c then c\<lparr>is_in_txn := Some True\<rparr> else c) cs"

fun nonslp_inputs :: "wallet \<Rightarrow> txin list \<Rightarrow> coin list \<Rightarrow> error + coin list" where
  "nonslp_inputs w [] cs = Inr cs"
| "nonslp_inputs w (txo # rest) cs =
     (case slp_txo w (txo_key txo) of
        None \<Rightarrow> nonslp_inputs w rest cs
      | Some _ \<Rightarrow>
         if is_burn_allowed cs txo then nonslp_inputs w rest (mark_in_txn cs txo)
         else Inl NonSlpTransactionHasSlpInputs)"

text \<open>
  The loop over \<open>coins_to_burn\<close>. A coin that is in the transaction with an integer value
  is added and the loop \<open>continue\<close>s; the comparison with \<open>amt_to_burn\<close> is in the loop
  body, after that \<open>continue\<close>.
\<close>

fun total_burn_loop :: "coin list \<Rightarrow> int \<Rightarrow> pyval \<Rightarrow> error + int" where
  "total_burn_loop [] total_burn amt = Inr total_burn"
| "total_burn_loop (c # cs) total_burn amt =
     (case is_in_txn c of
        None \<Rightarrow> Inl MissingCoinToBeBurned
      | Some False \<Rightarrow>
          if PyInt total_burn \<noteq> amt then Inl InvalidBurnAmount
          else total_burn_loop cs total_burn amt
      | Some True \<Rightarrow>
         (case token_value c of
            None \<Rightarrow> Inl MissingCoinToBeBurned
          | Some (Qty v) \<Rightarrow> total_burn_loop cs (total_burn + v) amt
          | Some MINT_BATON \<Rightarrow>
              if PyInt total_burn \<noteq> amt then Inl InvalidBurnAmount
              else total_burn_loop cs total_burn amt))"

definition check_non_slp ::
  "wallet \<Rightarrow> tx \<Rightarrow> coin list option \<Rightarrow> pyval \<Rightarrow> error + coin list" where
  "check_non_slp w t coins_to_burn amt =
     (case nonslp_inputs w (inputs t) (coins_list coins_to_burn) of
        Inl e \<Rightarrow> Inl e
      | Inr cs \<Rightarrow>
         if cs \<noteq> [] then
           (case total_burn_loop cs 0 amt of Inl e \<Rightarrow> Inl e | Inr _ \<Rightarrow> Inr cs)
         else Inr cs)"

subsection \<open>Step 3b: SEND\<close>

fun send_inputs :: "wallet \<Rightarrow> txid \<Rightarrow> txin list \<Rightarrow> int \<Rightarrow> error + int" where
  "send_inputs w tid [] input_slp_qty = Inr input_slp_qty"
| "send_inputs w tid (txo # rest) input_slp_qty =
     (case slp_txo w (txo_key txo) of
        None \<Rightarrow> send_inputs w tid rest input_slp_qty
      | Some slp_input \<Rightarrow>
         if qty slp_input = Qty 0 then send_inputs w tid rest input_slp_qty
         else
           (let q = (case qty slp_input of Qty v \<Rightarrow> input_slp_qty + v
                                         | MINT_BATON \<Rightarrow> input_slp_qty)
            in if token_id slp_input \<noteq> tid then Inl SlpWrongTokenID
               else send_inputs w tid rest q))"

definition send_quantities :: "int \<Rightarrow> int list \<Rightarrow> coin list option \<Rightarrow> pyval \<Rightarrow> error + unit" where
  "send_quantities input_slp_qty slp_outputs coins_to_burn amt =
     (if input_slp_qty < sum_list slp_outputs then Inl SlpInputsTooLow
      else if truthy_coins coins_to_burn then
        (case amt of
           PyInt a \<Rightarrow> if input_slp_qty - a \<noteq> sum_list slp_outputs
                      then Inl InvalidBurnAmount else Inr ()
         | _ \<Rightarrow> Inl TypeError)
      else if input_slp_qty > sum_list slp_outputs then Inl SlpInputsTooHigh
      else Inr ())"

text \<open>The loop \<open>for i, out in enumerate(token_output)\<close>, from index \<open>i\<close> for \<open>k\<close> entries.\<close>

fun send_outputs :: "txout list \<Rightarrow> nat \<Rightarrow> nat \<Rightarrow> error + unit" where
  "send_outputs outs i 0 = Inr ()"
| "send_outputs outs i (Suc k) =
     (if i \<ge> length outs then Inl MissingTokenReceiverOutpoint
      else if i = 0 then
        (if out_type (outs ! i) = 2 then send_outputs outs (Suc i) k else Inl AssertionError)
      else if \<not> p2pkh_or_p2sh (outs ! i) then Inl BadSlpOutpointType
      else send_outputs outs (Suc i) k)"

definition check_send ::
  "wallet \<Rightarrow> tx \<Rightarrow> slp_msg \<Rightarrow> coin list option \<Rightarrow> pyval \<Rightarrow> error + unit" where
  "check_send w t m coins_to_burn amt =
     (case send_inputs w (token_id_hex m) (inputs t) 0 of
        Inl e \<Rightarrow> Inl e
      | Inr input_slp_qty \<Rightarrow>
         (case send_quantities input_slp_qty (token_output m) coins_to_burn amt of
            Inl e \<Rightarrow> Inl e
          | Inr _ \<Rightarrow> send_outputs (outputs t) 0 (length (token_output m))))"

subsection \<open>Step 3b: MINT and GENESIS\<close>

fun mint_inputs :: "wallet \<Rightarrow> txid \<Rightarrow> txin list \<Rightarrow> error + unit" where
  "mint_inputs w tid [] = Inr ()"
| "mint_inputs w tid (txo # rest) =
     (case slp_txo w (txo_key txo) of
        None \<Rightarrow> mint_inputs w tid rest
      | Some slp_input \<Rightarrow>
         if qty slp_input = Qty 0 then mint_inputs w tid rest
         else if qty slp_input \<noteq> MINT_BATON then Inl SlpNonMintInput
         else if token_id slp_input \<noteq> tid then Inl SlpWrongTokenID
         else mint_inputs w tid rest)"

fun genesis_inputs :: "wallet \<Rightarrow> txin list \<Rightarrow> coin list \<Rightarrow> error + coin list" where
  "genesis_inputs w [] cs = Inr cs"
| "genesis_inputs w (txo # rest) cs =
     (case slp_txo w (txo_key txo) of
        None \<Rightarrow> genesis_inputs w rest cs
      | Some slp_input \<Rightarrow>
         if qty slp_input = Qty 0 then genesis_inputs w rest cs
         else if is_burn_allowed cs txo then genesis_inputs w rest (mark_in_txn cs txo)
         else Inl NonSlpTransactionHasSlpInputs)"

text \<open>
  The output checks shared by GENESIS and MINT. The look-up of the token receiver at
  index 1 is inside the branch taken when \<open>mint_baton_vout\<close> is set and nonzero.
\<close>

definition check_baton_and_receiver :: "tx \<Rightarrow> slp_msg \<Rightarrow> error + unit" where
  "check_baton_and_receiver t m =
     (case mint_baton_vout m of
        None \<Rightarrow> Inr ()
      | Some b \<Rightarrow>
         if b = 0 then Inr ()
         else if b \<ge> length (outputs t) then Inl MissingMintBatonOutpoint
         else if \<not> p2pkh_or_p2sh (outputs t ! b) then Inl BadSlpOutpointType
         else if 1 \<ge> length (outputs t) then Inl MissingTokenReceiverOutpoint
         else if \<not> p2pkh_or_p2sh (outputs t ! 1) then Inl BadSlpOutpointType
         else Inr ())"

definition remark :: "coin list option \<Rightarrow> coin list \<Rightarrow> coin list option" where
  "remark coins_to_burn cs = (case coins_to_burn of None \<Rightarrow> None | Some _ \<Rightarrow> Some cs)"

text \<open>
  The branch for a transaction with a token message. Only GENESIS marks coins of
  \<open>coins_to_burn\<close>; the list is returned as the later steps see it.
\<close>

definition check_slp ::
  "wallet \<Rightarrow> tx \<Rightarrow> slp_msg \<Rightarrow> coin list option \<Rightarrow> pyval \<Rightarrow> error + coin list option" where
  "check_slp w t m coins_to_burn amt =
     (case transaction_type m of
        SEND \<Rightarrow>
         (case check_send w t m coins_to_burn amt of
            Inl e \<Rightarrow> Inl e
          | Inr _ \<Rightarrow> Inr coins_to_burn)
      | MINT \<Rightarrow>
         (case mint_inputs w (token_id_hex m) (inputs t) of
            Inl e \<Rightarrow> Inl e
          | Inr _ \<Rightarrow>
             (case check_baton_and_receiver t m of
                Inl e \<Rightarrow> Inl e
              | Inr _ \<Rightarrow> Inr coins_to_burn))
      | GENESIS \<Rightarrow>
         (case genesis_inputs w (inputs t) (coins_list coins_to_burn) of
            Inl e \<Rightarrow> Inl e
          | Inr cs \<Rightarrow>
             (case check_baton_and_receiver t m of
                Inl e \<Rightarrow> Inl e
              | Inr _ \<Rightarrow> Inr (remark coins_to_burn cs)))
      | COMMIT \<Rightarrow> Inr coins_to_burn)"

subsection \<open>The whole check\<close>

definition preflight :: "net \<Rightarrow> tx \<Rightarrow> coin list option \<Rightarrow> pyval \<Rightarrow> error + bool" where
  "preflight n t coins_to_burn amt =
     (if SLP_PREFLIGHT_CHECK n \<and> \<not> preflight_ok n t coins_to_burn amt
      then Inl PreflightFailed else Inr True)"

text \<open>Steps 2 to 5, after the argument check and step 1.\<close>

definition check_steps ::
  "net \<Rightarrow> wallet \<Rightarrow> tx \<Rightarrow> coin list option \<Rightarrow> pyval \<Rightarrow> error + bool" where
  "check_steps n w t coins_to_burn amt =
     (case outputs t of
        [] \<Rightarrow> Inl IndexError
      | out0 # _ \<Rightarrow>
         (case out_slp out0 of
            Parsed m \<Rightarrow>
             (case check_slp w t m coins_to_burn amt of
                Inl e \<Rightarrow> Inl e
              | Inr coins' \<Rightarrow> preflight n t coins' amt)
          | _ \<Rightarrow>
             (case check_non_slp w t coins_to_burn amt of
                Inl e \<Rightarrow> Inl e
              | Inr cs \<Rightarrow> preflight n t (remark coins_to_burn cs) amt)))"

definition check_tx_slp ::
  "net \<Rightarrow> wallet \<Rightarrow> tx \<Rightarrow> coin list option \<Rightarrow> pyval \<Rightarrow> bool \<Rightarrow> error + bool" where
  "check_tx_slp n w t coins_to_burn amt_to_burn require_tx_in_wallet =
     (if truthy_coins coins_to_burn \<and> \<not> is_int amt_to_burn then Inl InvalidBurnAmount
      else if truthy amt_to_burn \<and> \<not> truthy_coins coins_to_burn then Inl InvalidBurnAmount
      else
        (case (if require_tx_in_wallet then check_inputs_in_wallet w (inputs t) else Inr ()) of
           Inl e \<Rightarrow> Inl e
         | Inr _ \<Rightarrow> check_steps n w t coins_to_burn amt_to_burn))"

section \<open>The NFT1 child validator: classification\<close>

text \<open>
  \<open>myinfo\<close> is the string \<open>'GENESIS'\<close> or the integer sum of the declared outputs.
  The result of \<open>get_info\<close> is \<open>('prune', code)\<close> or the triple
  \<open>(vin_mask, myinfo, outputs)\<close>.
\<close>

datatype myinfo = Info_GENESIS | Info_sum int

datatype info = Prune int | Info "bool list" myinfo "int option list"

text \<open>Truncate the list of outputs to the number of transaction outputs, then pad with \<open>None\<close>.\<close>

definition fit_outputs :: "int option list \<Rightarrow> nat \<Rightarrow> int option list" where
  "fit_outputs outs n = take n outs @ replicate (n - length (take n outs)) None"

subsection \<open>The per-instance validator (\<open>electroncash/slp_validator_0x01_nft1.py\<close>)\<close>

definition token_id_mismatch :: "txid option \<Rightarrow> bool \<Rightarrow> txid \<Rightarrow> bool" where
  "token_id_mismatch self_token_id_hex diff_testing_mode tid =
     (if diff_testing_mode then self_token_id_hex \<noteq> None \<and> Some tid \<noteq> self_token_id_hex
      else Some tid \<noteq> self_token_id_hex)"

definition get_info :: "txid option \<Rightarrow> tx \<Rightarrow> bool \<Rightarrow> info" where
  "get_info self_token_id_hex t diff_testing_mode =
     (case outputs t of
        [] \<Rightarrow> Prune 2
      | out0 # _ \<Rightarrow>
         (case out_slp out0 of
            SlpUnsupportedSlpTokenType \<Rightarrow> Prune 0
          | SlpInvalidOutputMessage \<Rightarrow> Prune 2
          | Parsed slpMsg \<Rightarrow>
             if token_type slpMsg \<noteq> 65 then Prune 0
             else
               (case transaction_type slpMsg of
                  SEND \<Rightarrow>
                   if token_id_mismatch self_token_id_hex diff_testing_mode (token_id_hex slpMsg)
                   then Prune 0
                   else Info (replicate (length (inputs t)) True)
                             (Info_sum (sum_list (token_output slpMsg)))
                             (fit_outputs (map Some (token_output slpMsg)) (length (outputs t)))
                | GENESIS \<Rightarrow>
                   if mint_baton_vout slpMsg \<noteq> None then Prune 2
                   else if decimals slpMsg \<noteq> 0 then Prune 2
                   else if initial_token_mint_quantity slpMsg \<noteq> 1 then Prune 2
                   else if token_id_mismatch self_token_id_hex diff_testing_mode (txid_fast t)
                   then Prune 0
                   else Info (replicate (length (inputs t)) False) Info_GENESIS
                             (fit_outputs [None, Some (initial_token_mint_quantity slpMsg)]
                                (length (outputs t)))
                | MINT \<Rightarrow> Prune 2
                | COMMIT \<Rightarrow> Prune 0)))"

subsection \<open>The module-global validator (\<open>lib/slp_validator_0x01_nft1.py\<close>)\<close>

definition get_info_lib :: "txid option \<Rightarrow> tx \<Rightarrow> info" where
  "get_info_lib self_token_id_hex t =
     (case outputs t of
        [] \<Rightarrow> Prune 2
      | out0 # _ \<Rightarrow>
         (case out_slp out0 of
            SlpUnsupportedSlpTokenType \<Rightarrow> Prune 0
          | SlpInvalidOutputMessage \<Rightarrow> Prune 2
          | Parsed slpMsg \<Rightarrow>
             if token_type slpMsg \<noteq> 65 then Prune 0
             else
               (case transaction_type slpMsg of
                  SEND \<Rightarrow>
                   if length (token_output slpMsg) \<noteq> 2 then Prune 2
                   else if token_output slpMsg ! 1 \<noteq> 1 then Prune 2
                   else if Some (token_id_hex slpMsg) \<noteq> self_token_id_hex then Prune 0
                   else Info (replicate (length (inputs t)) True)
                             (Info_sum (sum_list (token_output slpMsg)))
                             (fit_outputs (map Some (token_output slpMsg)) (length (outputs t)))
                | GENESIS \<Rightarrow>
                   if mint_baton_vout slpMsg \<noteq> None then Prune 2
                   else if decimals slpMsg \<noteq> 0 then Prune 2
                   else if initial_token_mint_quantity slpMsg > 1 then Prune 2
                   else if Some (txid_fast t) \<noteq> self_token_id_hex then Prune 0
                   else Info (replicate (length (inputs t)) False) Info_GENESIS
                             (fit_outputs [None, Some (initial_token_mint_quantity slpMsg)]
                                (length (outputs t)))
                | MINT \<Rightarrow> Prune 2
                | COMMIT \<Rightarrow> Prune 0)))"

section \<open>The NFT1 child validator: decision\<close>

text \<open>An entry of \<open>inputs_info\<close> is \<open>(vin, validity, contribution)\<close>.\<close>

type_synonym input_info = "nat \<times> int \<times> int"

definition insum_all :: "input_info list \<Rightarrow> int" where
  "insum_all inputs_info = sum_list (map (\<lambda>inp. snd (snd inp)) (filter (\<lambda>inp. fst (snd inp) \<le> 1) inputs_info))"

definition insum_valid :: "input_info list \<Rightarrow> int" where
  "insum_valid inputs_info = sum_list (map (\<lambda>inp. snd (snd inp)) (filter (\<lambda>inp. fst (snd inp) = 1) inputs_info))"

subsection \<open>State of the per-instance validator\<close>

text \<open>
  An entry of \<open>wallet.tx_tokinfo\<close>; the type \<open>'SLP%d'\<close> is kept as its number.
  An entry of \<open>wallet.token_types\<close>.
\<close>

record tokinfo =
  tti_type :: int
  tti_transaction_type :: tx_type
  tti_token_id :: txid
  tti_validity :: int

record token_type_entry =
  tt_class :: string
  tt_name :: string
  tt_decimals :: int
  tt_group_id :: "txid option"

record nft_wallet =
  nw_transactions :: "txid \<rightharpoonup> tx"
  tx_tokinfo :: "txid \<rightharpoonup> tokinfo"
  token_types :: "txid \<rightharpoonup> token_type_entry"

text \<open>The slots of \<open>ValidationJobNFT1Child\<close> that the validator reads and writes.\<close>

record job =
  root_txid :: txid
  genesis_tx :: "tx option"
  nft_parent_tx :: "tx option"
  nft_parent_validity :: int
  forced_failure_val :: "int option"

text \<open>
  The state the validator works on: the wallet behind the job's weak reference (\<open>None\<close>
  once the wallet is gone), the current job, and the pairs emitted on
  \<open>slp_validity_signal\<close>, oldest first.
\<close>

record vstate =
  st_wallet :: "nft_wallet option"
  st_job :: job
  st_signals :: "(txid \<times> int) list"

text \<open>
  The collaborators: the answer of the network to \<open>blockchain.transaction.get\<close>, whether
  a validity signal is installed, and the outcome of the nested job that
  \<open>graph_context.make_job\<close> creates and runs for the parent transaction.
\<close>

datatype resp = RespError | RespResult tx

datatype parent_job_result = NoGraphContext | NoJob | JobDone txid int

record env =
  fetch :: "txid \<Rightarrow> resp"
  slp_validity_signal :: bool
  run_parent_job :: "tx \<Rightarrow> parent_job_result"

subsection \<open>Fetching the genesis and the parent transaction\<close>

definition store_tx :: "nft_wallet \<Rightarrow> tx \<Rightarrow> nft_wallet" where
  "store_tx w t =
     (if nw_transactions w (txid_fast t) = None
      then w\<lparr>nw_transactions := (nw_transactions w)(txid_fast t \<mapsto> t)\<rparr> else w)"

text \<open>The callback \<open>dl_cb\<close> of \<open>download_nft_genesis\<close>.\<close>

definition genesis_dl_cb ::
  "txid \<Rightarrow> resp \<Rightarrow> nft_wallet \<Rightarrow> job \<Rightarrow> error + nft_wallet \<times> job" where
  "genesis_dl_cb self_token_id_hex r w j =
     (case r of
        RespError \<Rightarrow> Inl Exception
      | RespResult t \<Rightarrow>
         if txid_fast t \<noteq> self_token_id_hex then Inl AssertionError
         else
           (let w1 = store_tx w t in
            if tx_tokinfo w1 self_token_id_hex = None then
              (case outputs t of
                 [] \<Rightarrow> Inl IndexError
               | out0 # _ \<Rightarrow>
                  (case out_slp out0 of
                     Parsed slpMsg \<Rightarrow>
                       Inr (w1\<lparr>tx_tokinfo := (tx_tokinfo w1)(self_token_id_hex \<mapsto>
                                  \<lparr>tti_type = token_type slpMsg,
                                   tti_transaction_type = transaction_type slpMsg,
                                   tti_token_id = self_token_id_hex,
                                   tti_validity = 0\<rparr>)\<rparr>,
                            j\<lparr>genesis_tx := Some t\<rparr>)
                   | _ \<Rightarrow> Inl ParsingError))
            else Inr (w1, j\<lparr>genesis_tx := Some t\<rparr>)))"

text \<open>
  The test of \<open>download_nft_parent_tx\<close> on the parent's message and on the outpoint
  \<open>nft_parent_idx\<close> that the first input of the child's genesis spends.
\<close>

definition bad_parent :: "slp_msg \<Rightarrow> nat \<Rightarrow> bool" where
  "bad_parent slpMsg nft_parent_idx =
     ((transaction_type slpMsg \<in> {GENESIS, MINT} \<and> nft_parent_idx \<noteq> 1)
      \<or> (transaction_type slpMsg = SEND
          \<and> int nft_parent_idx > int (length (token_output slpMsg)) - 1)
      \<or> token_type slpMsg \<noteq> 129)"

text \<open>
  The callback \<open>dl_cb\<close> of \<open>download_nft_parent_tx\<close>. The message is parsed and tested
  only when the wallet has no \<open>tx_tokinfo\<close> entry for the parent yet; the bare
  \<open>except\<close> covers the look-up of output 0 and the parser.
\<close>

definition try_parse_first :: "tx \<Rightarrow> slp_msg option" where
  "try_parse_first t =
     (case outputs t of
        [] \<Rightarrow> None
      | out0 # _ \<Rightarrow> (case out_slp out0 of Parsed slpMsg \<Rightarrow> Some slpMsg | _ \<Rightarrow> None))"

definition parent_dl_cb :: "resp \<Rightarrow> nft_wallet \<Rightarrow> job \<Rightarrow> error + nft_wallet \<times> job" where
  "parent_dl_cb r w j =
     (case r of
        RespError \<Rightarrow> Inl Exception
      | RespResult t \<Rightarrow>
         (let w1 = store_tx w t in
          if tx_tokinfo w1 (txid_fast t) = None then
            (case try_parse_first t of
               None \<Rightarrow> Inr (w1, j\<lparr>nft_parent_validity := 4, nft_parent_tx := Some t\<rparr>)
             | Some slpMsg \<Rightarrow>
                (case genesis_tx j of
                   None \<Rightarrow> Inl AttributeError
                 | Some g \<Rightarrow>
                    (case inputs g of
                       [] \<Rightarrow> Inl IndexError
                     | in0 # _ \<Rightarrow>
                        if bad_parent slpMsg (prevout_n in0)
                        then Inr (w1, j\<lparr>nft_parent_validity := 4, nft_parent_tx := Some t\<rparr>)
                        else Inr (w1\<lparr>tx_tokinfo := (tx_tokinfo w1)(txid_fast t \<mapsto>
                                       \<lparr>tti_type = token_type slpMsg,
                                        tti_transaction_type = transaction_type slpMsg,
                                        tti_token_id =
                                          (if transaction_type slpMsg = GENESIS then txid_fast t
                                           else token_id_hex slpMsg),
                                        tti_validity = 0\<rparr>)\<rparr>,
                                  j\<lparr>nft_parent_tx := Some t\<rparr>))))
          else Inr (w1, j\<lparr>nft_parent_tx := Some t\<rparr>)))"

subsection \<open>Starting the parent job\<close>

text \<open>\<open>wallet.add_token_type\<close> is taken to store the entry under the token id.\<close>

definition add_token_type :: "nft_wallet \<Rightarrow> txid \<Rightarrow> token_type_entry \<Rightarrow> nft_wallet" where
  "add_token_type w tid e = w\<lparr>token_types := (token_types w)(tid \<mapsto> e)\<rparr>"

text \<open>The completion callback of the nested job, for its node \<open>txid\<close> with validity \<open>val\<close>.\<close>

definition parent_job_callback :: "env \<Rightarrow> vstate \<Rightarrow> txid \<Rightarrow> int \<Rightarrow> error + vstate" where
  "parent_job_callback e st txid val =
     (case (st_wallet st, nft_parent_tx (st_job st), genesis_tx (st_job st)) of
        (Some w, Some p, Some g) \<Rightarrow>
         (case tx_tokinfo w (txid_fast p) of
            None \<Rightarrow> Inl KeyError
          | Some tti \<Rightarrow>
             (let group_id = tti_token_id tti;
                  child_id = txid_fast g;
                  name = (case token_types w child_id of
                            Some c \<Rightarrow> tt_name c @ ''-parent''
                          | None \<Rightarrow> take 5 child_id @ ''-parent'');
                  w1 = (if token_types w group_id = None
                        then add_token_type w group_id
                               \<lparr>tt_class = ''SLP129'', tt_name = name, tt_decimals = 0,
                                tt_group_id = None\<rparr>
                        else w);
                  w2 = (if token_types w1 child_id = None
                        then add_token_type w1 child_id
                               \<lparr>tt_class = ''SLP65'', tt_name = take 5 child_id, tt_decimals = 0,
                                tt_group_id = None\<rparr>
                        else w1)
              in case (token_types w2 child_id, tx_tokinfo w2 (txid_fast p)) of
                   (Some c, Some pt) \<Rightarrow>
                     Inr (st\<lparr>st_wallet := Some (w2\<lparr>
                                token_types := (token_types w2)
                                   (child_id \<mapsto> c\<lparr>tt_group_id := Some group_id\<rparr>),
                                tx_tokinfo := (tx_tokinfo w2)
                                   (txid_fast p \<mapsto> pt\<lparr>tti_validity := val\<rparr>)\<rparr>),
                             st_signals := st_signals st
                                @ (if slp_validity_signal e then [(txid, val)] else []),
                             st_job := (st_job st)\<lparr>nft_parent_validity := val\<rparr>\<rparr>)
                 | _ \<Rightarrow> Inl KeyError))
      | _ \<Rightarrow> Inl AttributeError)"

definition start_NFT_parent_job :: "env \<Rightarrow> vstate \<Rightarrow> error + vstate" where
  "start_NFT_parent_job e st =
     (let j = st_job st in
      if nft_parent_validity j > 1 then
        (if slp_validity_signal e then
           (case (nft_parent_tx j, genesis_tx j) of
              (Some p, Some g) \<Rightarrow>
                Inr (st\<lparr>st_signals := st_signals st
                          @ [(txid_fast p, nft_parent_validity j), (txid_fast g, 4),
                             (root_txid j, 4)]\<rparr>)
            | _ \<Rightarrow> Inl AttributeError)
         else Inr st)
      else
        (case nft_parent_tx j of
           None \<Rightarrow> Inl AttributeError
         | Some p \<Rightarrow>
            (case run_parent_job e p of
               NoGraphContext \<Rightarrow> Inr st
             | NoJob \<Rightarrow> Inl Exception
             | JobDone txid val \<Rightarrow> parent_job_callback e st txid val)))"

definition download_nft_parent_tx :: "env \<Rightarrow> vstate \<Rightarrow> error + vstate" where
  "download_nft_parent_tx e st =
     (case genesis_tx (st_job st) of
        None \<Rightarrow> Inl AttributeError
      | Some g \<Rightarrow>
         (case inputs g of
            [] \<Rightarrow> Inl IndexError
          | in0 # _ \<Rightarrow>
             (case st_wallet st of
                None \<Rightarrow> Inl AttributeError
              | Some w \<Rightarrow>
                 (let r = (case nw_transactions w (prevout_hash in0) of
                             Some t \<Rightarrow> RespResult t
                           | None \<Rightarrow> fetch e (prevout_hash in0))
                  in case parent_dl_cb r w (st_job st) of
                       Inl err \<Rightarrow> Inl err
                     | Inr (w', j') \<Rightarrow>
                         start_NFT_parent_job e (st\<lparr>st_wallet := Some w', st_job := j'\<rparr>)))))"

definition download_nft_genesis :: "env \<Rightarrow> txid \<Rightarrow> vstate \<Rightarrow> error + vstate" where
  "download_nft_genesis e self_token_id_hex st =
     (case st_wallet st of
        None \<Rightarrow> Inl AttributeError
      | Some w \<Rightarrow>
         (let r = (case nw_transactions w self_token_id_hex of
                     Some t \<Rightarrow> RespResult t
                   | None \<Rightarrow> fetch e self_token_id_hex)
          in case genesis_dl_cb self_token_id_hex r w (st_job st) of
               Inl err \<Rightarrow> Inl err
             | Inr (w', j') \<Rightarrow>
                 download_nft_parent_tx e (st\<lparr>st_wallet := Some w', st_job := j'\<rparr>)))"

subsection \<open>\<open>validate\<close> of the per-instance validator\<close>

text \<open>The tests on the parent's message: the parent carries less than one unit.\<close>

definition parent_insufficient :: "slp_msg \<Rightarrow> bool" where
  "parent_insufficient pm =
     (case transaction_type pm of
        GENESIS \<Rightarrow> initial_token_mint_quantity pm < 1
      | MINT \<Rightarrow> additional_token_quantity pm < 1
      | SEND \<Rightarrow> sum_list (token_output pm) < 1
      | COMMIT \<Rightarrow> False)"

text \<open>The SEND branch: \<open>myinfo\<close> is the integer sum of the declared outputs.\<close>

definition validate_send :: "int \<Rightarrow> input_info list \<Rightarrow> error + (bool \<times> int) option" where
  "validate_send myinfo inputs_info =
     (if insum_all inputs_info < myinfo then Inr (Some (False, 3))
      else if insum_valid inputs_info > 1 then Inl Exception
      else if insum_valid inputs_info \<ge> myinfo then Inr (Some (True, 1))
      else Inr None)"

text \<open>The part of \<open>validate\<close> after the three early returns.\<close>

definition validate_parent_known ::
  "vstate \<Rightarrow> tx \<Rightarrow> myinfo \<Rightarrow> input_info list \<Rightarrow> error + (bool \<times> int) option \<times> vstate" where
  "validate_parent_known st parent_tx myinfo inputs_info =
     (let j = st_job st in
      case outputs parent_tx of
        [] \<Rightarrow> Inl IndexError
      | out0 # _ \<Rightarrow>
         (case out_slp out0 of
            SlpInvalidOutputMessage \<Rightarrow> Inr (Some (False, 4), st)
          | SlpUnsupportedSlpTokenType \<Rightarrow> Inl ParsingError
          | Parsed parent_slp_msg \<Rightarrow>
             if parent_insufficient parent_slp_msg then Inr (Some (False, 3), st)
             else
               (case myinfo of
                  Info_GENESIS \<Rightarrow>
                    if inputs_info \<noteq> [] then Inl RuntimeError
                    else if nft_parent_validity j = 1 then Inr (Some (True, 1), st)
                    else if nft_parent_validity j > 1
                      then Inr (Some (False, nft_parent_validity j), st)
                    else Inr (None, st)
                | Info_sum m \<Rightarrow>
                    (case validate_send m inputs_info of
                       Inl err \<Rightarrow> Inl err
                     | Inr res \<Rightarrow> Inr (res, st)))))"

definition validate_unforced ::
  "env \<Rightarrow> txid \<Rightarrow> vstate \<Rightarrow> myinfo \<Rightarrow> input_info list
     \<Rightarrow> error + (bool \<times> int) option \<times> vstate" where
  "validate_unforced e self_token_id_hex st myinfo inputs_info =
     (if myinfo = Info_sum 0 then Inr (Some (True, 1), st)
      else
        (case nft_parent_tx (st_job st) of
           None \<Rightarrow>
            (case download_nft_genesis e self_token_id_hex st of
               Inl err \<Rightarrow> Inl err
             | Inr st' \<Rightarrow> Inr (None, st'))
         | Some parent_tx \<Rightarrow> validate_parent_known st parent_tx myinfo inputs_info))"

text \<open>
  \<open>job_current\<close> is \<open>None\<close> when the manager's current job is not a
  \<open>ValidationJobNFT1Child\<close>. The result is the returned value (\<open>None\<close> for pending) with
  the state after the call.
\<close>

definition validate ::
  "env \<Rightarrow> txid \<Rightarrow> vstate option \<Rightarrow> myinfo \<Rightarrow> input_info list
     \<Rightarrow> error + (bool \<times> int) option \<times> vstate" where
  "validate e self_token_id_hex job_current myinfo inputs_info =
     (case job_current of
        None \<Rightarrow> Inl Exception
      | Some st \<Rightarrow>
         if nft_parent_validity (st_job st) > 1
         then Inr (Some (False, nft_parent_validity (st_job st)), st)
         else
           (case forced_failure_val (st_job st) of
              None \<Rightarrow> validate_unforced e self_token_id_hex st myinfo inputs_info
            | Some v \<Rightarrow>
               if v \<noteq> 0 then Inr (Some (False, v), st)
               else validate_unforced e self_token_id_hex st myinfo inputs_info))"

subsection \<open>\<open>validate\<close> of the module-global validator\<close>

text \<open>
  The validator object holds the parent's slots itself. When the parent transaction is
  not known yet, \<open>validate\<close> pauses the job, starts the asynchronous downloads and returns
  \<open>None\<close>; the flag of the result says that it did.
\<close>

record lib_validator =
  lv_nft_parent_tx :: "tx option"
  lv_nft_parent_validity :: int

definition validate_send_lib :: "int \<Rightarrow> input_info list \<Rightarrow> (bool \<times> int) option" where
  "validate_send_lib myinfo inputs_info =
     (if insum_all inputs_info < myinfo then Some (False, 3)
      else if insum_valid inputs_info \<ge> myinfo then Some (True, 1)
      else None)"

definition validate_lib ::
  "lib_validator \<Rightarrow> myinfo \<Rightarrow> input_info list \<Rightarrow> error + (bool \<times> int) option \<times> bool" where
  "validate_lib v myinfo inputs_info =
     (if lv_nft_parent_tx v = None then Inr (None, True)
      else
        (case myinfo of
           Info_GENESIS \<Rightarrow>
             if inputs_info \<noteq> [] then Inl RuntimeError
             else if lv_nft_parent_validity v = 1 then Inr (Some (True, 1), False)
             else if lv_nft_parent_validity v > 1
               then Inr (Some (False, lv_nft_parent_validity v), False)
             else Inr (None, False)
         | Info_sum m \<Rightarrow> Inr (validate_send_lib m inputs_info, False)))"

section \<open>Quantities that the properties speak of\<close>

text \<open>
  The sum of the integer quantities that the wallet records for the inputs: the number
  that the SEND check should compare with the declared outputs.
\<close>

definition wallet_input_qty :: "wallet \<Rightarrow> txin list \<Rightarrow> int" where
  "wallet_input_qty w ins =
     sum_list (map (\<lambda>txo. case slp_txo w (txo_key txo) of
                             None \<Rightarrow> 0
                           | Some r \<Rightarrow> (case qty r of Qty v \<Rightarrow> v | MINT_BATON \<Rightarrow> 0)) ins)"

text \<open>No recorded input of nonzero quantity belongs to another token than \<open>tid\<close>.\<close>

definition token_ids_match :: "wallet \<Rightarrow> txid \<Rightarrow> txin list \<Rightarrow> bool" where
  "token_ids_match w tid ins =
     list_all (\<lambda>txo. case slp_txo w (txo_key txo) of
                       None \<Rightarrow> True
                     | Some r \<Rightarrow> qty r = Qty 0 \<or> token_id r = tid) ins"

text \<open>
  The transactions on which the two classifications are written differently: a SEND of
  token type 65 whose declared outputs are not exactly two with a 1 in second place, and
  a GENESIS of token type 65 without baton and decimals whose quantity is below 1.
\<close>

definition nft_rules_differ :: "tx \<Rightarrow> bool" where
  "nft_rules_differ t =
     (case outputs t of
        [] \<Rightarrow> False
      | out0 # _ \<Rightarrow>
         (case out_slp out0 of
            Parsed m \<Rightarrow>
              token_type m = 65
              \<and> (case transaction_type m of
                    SEND \<Rightarrow> length (token_output m) \<noteq> 2 \<or> token_output m ! 1 \<noteq> 1
                  | GENESIS \<Rightarrow> mint_baton_vout m = None \<and> decimals m = 0
                                \<and> initial_token_mint_quantity m < 1
                  | _ \<Rightarrow> False)
          | _ \<Rightarrow> False))"

section \<open>Example transactions\<close>

definition ex_net :: net where
  "ex_net = \<lparr>SLP_PREFLIGHT_CHECK = False, preflight_ok = (\<lambda>_ _ _. True)\<rparr>"

definition opreturn_out :: "slp_msg \<Rightarrow> txout" where
  "opreturn_out m = \<lparr>out_type = 2, out_kind = ADDR_OTHER, out_slp = Parsed m\<rparr>"

definition p2pkh_out :: txout where
  "p2pkh_out = \<lparr>out_type = 0, out_kind = ADDR_P2PKH, out_slp = SlpInvalidOutputMessage\<rparr>"

definition genesis_msg :: "int \<Rightarrow> int \<Rightarrow> slp_msg" where
  "genesis_msg ty q =
     \<lparr>token_type = ty, transaction_type = GENESIS, token_id_hex = [], token_output = [],
      mint_baton_vout = None, decimals = 0, initial_token_mint_quantity = q,
      additional_token_quantity = 0\<rparr>"

definition send_msg :: "int \<Rightarrow> txid \<Rightarrow> int list \<Rightarrow> slp_msg" where
  "send_msg ty tid outs =
     \<lparr>token_type = ty, transaction_type = SEND, token_id_hex = tid, token_output = outs,
      mint_baton_vout = None, decimals = 0, initial_token_mint_quantity = 0,
      additional_token_quantity = 0\<rparr>"

text \<open>
  A wallet that holds the genesis \<open>''aa''\<close> of 100 units, recorded at its output 1, and
  a plain transaction \<open>''pp''\<close>.
\<close>

definition ex_genesis100 :: tx where
  "ex_genesis100 =
     \<lparr>txid_fast = ''aa'', inputs = [], outputs = [opreturn_out (genesis_msg 1 100), p2pkh_out]\<rparr>"

definition ex_plain :: tx where
  "ex_plain = \<lparr>txid_fast = ''pp'', inputs = [], outputs = [p2pkh_out]\<rparr>"

definition ex_wallet :: wallet where
  "ex_wallet =
     \<lparr>transactions = [''aa'' \<mapsto> ex_genesis100, ''pp'' \<mapsto> ex_plain],
      slp_txo = [(''addr'', ''aa'', 1) \<mapsto> \<lparr>token_id = ''aa'', qty = Qty 100\<rparr>]\<rparr>"

definition ex_token_input :: txin where
  "ex_token_input = \<lparr>address = ''addr'', prevout_hash = ''aa'', prevout_n = 1\<rparr>"

definition ex_plain_input :: txin where
  "ex_plain_input = \<lparr>address = ''addr'', prevout_hash = ''pp'', prevout_n = 0\<rparr>"

text \<open>A SEND of the 100 units to the declared outputs \<open>outs\<close>, one address output each.\<close>

definition ex_send :: "int list \<Rightarrow> tx" where
  "ex_send outs =
     \<lparr>txid_fast = ''bb'', inputs = [ex_token_input],
      outputs = opreturn_out (send_msg 1 ''aa'' (0 # outs)) # replicate (length outs) p2pkh_out\<rparr>"

definition ex_coin :: coin where
  "ex_coin = \<lparr>c_prevout_hash = ''aa'', c_prevout_n = 1, is_in_txn = None,
              token_value = Some (Qty 100)\<rparr>"

text \<open>A GENESIS of one unit without baton, whose only output is the message.\<close>

definition ex_genesis_no_receiver :: tx where
  "ex_genesis_no_receiver =
     \<lparr>txid_fast = ''cc'', inputs = [ex_plain_input], outputs = [opreturn_out (genesis_msg 1 1)]\<rparr>"

text \<open>A transaction without token message that spends the 100 units.\<close>

definition ex_burn_tx :: tx where
  "ex_burn_tx = \<lparr>txid_fast = ''dd'', inputs = [ex_token_input], outputs = [p2pkh_out]\<rparr>"

text \<open>Transactions of token type 65 for the classification.\<close>

definition ex_nft_genesis :: "txid \<Rightarrow> int \<Rightarrow> tx" where
  "ex_nft_genesis i q =
     \<lparr>txid_fast = i, inputs = [ex_plain_input],
      outputs = [opreturn_out (genesis_msg 65 q), p2pkh_out]\<rparr>"

definition ex_nft_send :: "int list \<Rightarrow> tx" where
  "ex_nft_send outs =
     \<lparr>txid_fast = ''ss'', inputs = [ex_token_input],
      outputs = [opreturn_out (send_msg 65 ''nn'' outs), p2pkh_out]\<rparr>"

text \<open>
  A group token: the genesis \<open>''gg''\<close> of token type 129, and the genesis \<open>''nn''\<close> of a
  child that spends output \<open>k\<close> of it. A job whose parent is known with validity \<open>v\<close>.
\<close>

definition ex_group_genesis :: tx where
  "ex_group_genesis =
     \<lparr>txid_fast = ''gg'', inputs = [ex_plain_input],
      outputs = [opreturn_out (genesis_msg 129 1), p2pkh_out, p2pkh_out]\<rparr>"

definition ex_child_genesis :: "txid \<Rightarrow> nat \<Rightarrow> tx" where
  "ex_child_genesis parent k =
     \<lparr>txid_fast = ''nn'', inputs = [\<lparr>address = ''addr'', prevout_hash = parent, prevout_n = k\<rparr>],
      outputs = [opreturn_out (genesis_msg 65 1), p2pkh_out]\<rparr>"

definition ex_job :: "int \<Rightarrow> job" where
  "ex_job v =
     \<lparr>root_txid = ''rr'', genesis_tx = Some (ex_child_genesis ''gg'' 1),
      nft_parent_tx = Some ex_group_genesis, nft_parent_validity = v,
      forced_failure_val = None\<rparr>"

definition ex_nft_wallet :: nft_wallet where
  "ex_nft_wallet =
     \<lparr>nw_transactions = Map.empty, tx_tokinfo = Map.empty, token_types = Map.empty\<rparr>"

definition ex_state :: "int \<Rightarrow> vstate" where
  "ex_state v = \<lparr>st_wallet = Some ex_nft_wallet, st_job = ex_job v, st_signals = []\<rparr>"

definition ex_env :: "bool \<Rightarrow> env" where
  "ex_env signal =
     \<lparr>fetch = (\<lambda>_. RespError), slp_validity_signal = signal,
      run_parent_job = (\<lambda>p. JobDone (txid_fast p) 1)\<rparr>"

definition ex_lib_validator :: lib_validator where
  "ex_lib_validator = \<lparr>lv_nft_parent_tx = Some ex_group_genesis, lv_nft_parent_validity = 1\<rparr>"

text \<open>
  The job of a child whose genesis is fetched already and spends output \<open>k\<close> of \<open>parent\<close>;
  a wallet that holds the transactions \<open>ts\<close> by their ids and the \<open>tx_tokinfo\<close> entries
  \<open>infos\<close>.
\<close>

definition ex_fresh_job :: "txid \<Rightarrow> nat \<Rightarrow> job" where
  "ex_fresh_job parent k =
     \<lparr>root_txid = ''rr'', genesis_tx = Some (ex_child_genesis parent k),
      nft_parent_tx = None, nft_parent_validity = 0, forced_failure_val = None\<rparr>"

definition ex_wallet_with :: "tx list \<Rightarrow> (txid \<times> tokinfo) list \<Rightarrow> nft_wallet" where
  "ex_wallet_with ts infos =
     \<lparr>nw_transactions = map_of (map (\<lambda>t. (txid_fast t, t)) ts),
      tx_tokinfo = map_of infos, token_types = Map.empty\<rparr>"

definition ex_fresh_state :: "txid \<Rightarrow> nat \<Rightarrow> tx list \<Rightarrow> (txid \<times> tokinfo) list \<Rightarrow> vstate" where
  "ex_fresh_state parent k ts infos =
     \<lparr>st_wallet = Some (ex_wallet_with ts infos), st_job = ex_fresh_job parent k,
      st_signals = []\<rparr>"

text \<open>
  A second child \<open>''n2''\<close>, whose genesis spends output 2 of the group genesis \<open>''gg''\<close>,
  an output that carries no token, and its job.
\<close>

definition ex_second_child :: tx where
  "ex_second_child =
     \<lparr>txid_fast = ''n2'', inputs = [\<lparr>address = ''addr'', prevout_hash = ''gg'', prevout_n = 2\<rparr>],
      outputs = [opreturn_out (genesis_msg 65 1), p2pkh_out]\<rparr>"

definition ex_second_job :: job where
  "ex_second_job =
     \<lparr>root_txid = ''n2'', genesis_tx = Some ex_second_child,
      nft_parent_tx = None, nft_parent_validity = 0, forced_failure_val = None\<rparr>"

lemmas ex_defs = ex_net_def opreturn_out_def p2pkh_out_def genesis_msg_def send_msg_def
  ex_genesis100_def ex_plain_def ex_wallet_def ex_token_input_def ex_plain_input_def
  ex_send_def ex_coin_def ex_genesis_no_receiver_def ex_burn_tx_def
  ex_nft_genesis_def ex_nft_send_def ex_group_genesis_def ex_child_genesis_def ex_job_def
  ex_nft_wallet_def ex_state_def ex_env_def ex_lib_validator_def
  ex_fresh_job_def ex_wallet_with_def ex_fresh_state_def
  ex_second_child_def ex_second_job_def

section \<open>Properties of the precondition checker\<close>

text \<open>
  Claim C9. When \<open>coins_to_burn\<close> is given non-empty and \<open>amt_to_burn\<close> is not an
  integer, or \<open>amt_to_burn\<close> is given nonzero and \<open>coins_to_burn\<close> is absent or empty,
  \<open>check_tx_slp\<close> raises \<open>InvalidBurnAmount\<close>, whatever the wallet, the transaction and
  \<open>require_tx_in_wallet\<close> are: no other step is reached.
\<close>

theorem check_tx_slp_burn_arguments:
  assumes "(truthy_coins coins_to_burn \<and> \<not> is_int amt_to_burn)
           \<or> (truthy amt_to_burn \<and> \<not> truthy_coins coins_to_burn)"
  shows "check_tx_slp n w t coins_to_burn amt_to_burn require_tx_in_wallet = Inl InvalidBurnAmount"
  using assms by (auto simp: check_tx_slp_def)

theorem check_tx_slp_burn_arguments_witness:
  "(truthy_coins (Some [ex_coin]) \<and> \<not> is_int PyNone)
   \<and> check_tx_slp ex_net ex_wallet ex_burn_tx (Some [ex_coin]) PyNone True = Inl InvalidBurnAmount
   \<and> (truthy (PyInt 5) \<and> \<not> truthy_coins None)
   \<and> check_tx_slp ex_net ex_wallet (ex_send [60, 40]) None (PyInt 5) True = Inl InvalidBurnAmount"
  using check_tx_slp_burn_arguments [of "Some [ex_coin]" PyNone ex_net ex_wallet ex_burn_tx True]
        check_tx_slp_burn_arguments [of "None" "PyInt 5" ex_net ex_wallet "ex_send [60, 40]" True]
  by simp

text \<open>
  Claim C2. The claim asks that a GENESIS or MINT without token receiver at output 1
  fails with \<open>MissingTokenReceiverOutpoint\<close>, with or without a baton. The code looks for
  output 1 only inside the branch of a declared baton: the GENESIS of one unit without
  baton whose only output is the message passes the whole check.
\<close>

theorem genesis_without_receiver_passes:
  "check_tx_slp ex_net ex_wallet ex_genesis_no_receiver None PyNone True = Inr True"
  by (simp add: check_tx_slp_def check_steps_def check_slp_def check_baton_and_receiver_def
      preflight_def input_skipped_def txo_key_def remark_def ex_defs)

text \<open>
  Claim C3. The claim asks that a transaction without token message fails when the sum
  of the burnt coins that are in the transaction differs from \<open>amt_to_burn\<close>. The code
  compares the two only after a coin that is not counted: the transaction that burns the
  coin of 100 units, marked as in the transaction, passes with \<open>amt_to_burn = 7\<close>.
\<close>

theorem burn_amount_not_compared:
  "nonslp_inputs ex_wallet (inputs ex_burn_tx) [ex_coin] = Inr [ex_coin\<lparr>is_in_txn := Some True\<rparr>]
   \<and> check_tx_slp ex_net ex_wallet ex_burn_tx (Some [ex_coin]) (PyInt 7) True = Inr True"
  by (simp add: check_tx_slp_def check_steps_def check_non_slp_def
      preflight_def input_skipped_def txo_key_def remark_def is_burn_allowed_def
      mark_in_txn_def coin_matches_def ex_defs)

lemma send_inputs_sum:
  "token_ids_match w tid ins \<Longrightarrow>
   send_inputs w tid ins acc = Inr (acc + wallet_input_qty w ins)"
proof (induction ins arbitrary: acc)
  case Nil
  then show ?case by (simp add: wallet_input_qty_def)
next
  case (Cons txo rest)
  then have rest: "token_ids_match w tid rest"
    by (simp add: token_ids_match_def)
  show ?case
  proof (cases "slp_txo w (txo_key txo)")
    case None
    then show ?thesis using Cons.IH [OF rest] by (simp add: wallet_input_qty_def)
  next
    case (Some r)
    then have ok: "qty r = Qty 0 \<or> token_id r = tid"
      using Cons.prems by (simp add: token_ids_match_def)
    show ?thesis
    proof (cases "qty r")
      case (Qty v)
      then show ?thesis using Some ok Cons.IH [OF rest]
        by (auto simp: wallet_input_qty_def)
    next
      case MINT_BATON
      then show ?thesis using Some ok Cons.IH [OF rest]
        by (auto simp: wallet_input_qty_def)
    qed
  qed
qed

lemma send_outputs_errors:
  "send_outputs outs i k = Inl e \<Longrightarrow>
   e = MissingTokenReceiverOutpoint \<or> e = AssertionError \<or> e = BadSlpOutpointType"
  by (induction outs i k rule: send_outputs.induct) (auto split: if_splits)

lemma check_tx_slp_send:
  assumes args: "\<not> (truthy_coins coins \<and> \<not> is_int amt)" "\<not> (truthy amt \<and> \<not> truthy_coins coins)"
    and step1: "req \<Longrightarrow> check_inputs_in_wallet w (inputs t) = Inr ()"
    and msg: "outputs t = out0 # outs" "out_slp out0 = Parsed m" "transaction_type m = SEND"
    and ids: "token_ids_match w (token_id_hex m) (inputs t)"
  shows "check_tx_slp n w t coins amt req =
     (case send_quantities (wallet_input_qty w (inputs t)) (token_output m) coins amt of
        Inl e \<Rightarrow> Inl e
      | Inr _ \<Rightarrow>
         (case send_outputs (outputs t) 0 (length (token_output m)) of
            Inl e \<Rightarrow> Inl e
          | Inr _ \<Rightarrow> preflight n t coins amt))"
proof -
  have a1: "(truthy_coins coins \<and> \<not> is_int amt) = False"
    and a2: "(truthy amt \<and> \<not> truthy_coins coins) = False"
    using args by simp_all
  have s1: "(if req then check_inputs_in_wallet w (inputs t) else Inr ()) = Inr ()"
    using step1 by simp
  have top: "check_tx_slp n w t coins amt req = check_steps n w t coins amt"
    unfolding check_tx_slp_def a1 a2 s1 by simp
  have si: "send_inputs w (token_id_hex m) (inputs t) 0 = Inr (wallet_input_qty w (inputs t))"
    using send_inputs_sum [OF ids, of 0] by simp
  show ?thesis
    unfolding top using msg
    by (simp add: check_steps_def check_slp_def check_send_def si split: sum.splits)
qed


text \<open>
  Claim C1. For a SEND transaction that passes the argument test and step 1 and whose
  recorded inputs all belong to the token of the message, let IN be the sum of the integer
  quantities recorded for the inputs and OUT the sum of the declared outputs. The check
  raises \<open>SlpInputsTooLow\<close> when IN < OUT; otherwise, with a burn list, it raises
  \<open>InvalidBurnAmount\<close> when IN - amt_to_burn differs from OUT; without a burn list it
  raises \<open>SlpInputsTooHigh\<close> when IN > OUT; and when IN = OUT without burn, or
  IN - amt_to_burn = OUT with burn, the quantity test passes: the result is that of the
  output test and the pre-flight step, and none of the three quantity errors.
\<close>

theorem send_quantity_check:
  assumes args: "\<not> (truthy_coins coins \<and> \<not> is_int amt)" "\<not> (truthy amt \<and> \<not> truthy_coins coins)"
    and step1: "req \<Longrightarrow> check_inputs_in_wallet w (inputs t) = Inr ()"
    and msg: "outputs t = out0 # outs" "out_slp out0 = Parsed m" "transaction_type m = SEND"
    and ids: "token_ids_match w (token_id_hex m) (inputs t)"
  shows
    "(wallet_input_qty w (inputs t) < sum_list (token_output m)
        \<longrightarrow> check_tx_slp n w t coins amt req = Inl SlpInputsTooLow)
     \<and> (sum_list (token_output m) \<le> wallet_input_qty w (inputs t) \<and> truthy_coins coins
          \<and> amt = PyInt a \<and> wallet_input_qty w (inputs t) - a \<noteq> sum_list (token_output m)
        \<longrightarrow> check_tx_slp n w t coins amt req = Inl InvalidBurnAmount)
     \<and> (\<not> truthy_coins coins \<and> wallet_input_qty w (inputs t) > sum_list (token_output m)
        \<longrightarrow> check_tx_slp n w t coins amt req = Inl SlpInputsTooHigh)
     \<and> ((\<not> truthy_coins coins \<and> wallet_input_qty w (inputs t) = sum_list (token_output m))
          \<or> (truthy_coins coins \<and> amt = PyInt a
              \<and> sum_list (token_output m) \<le> wallet_input_qty w (inputs t)
              \<and> wallet_input_qty w (inputs t) - a = sum_list (token_output m))
        \<longrightarrow> check_tx_slp n w t coins amt req =
              (case send_outputs (outputs t) 0 (length (token_output m)) of
                 Inl e \<Rightarrow> Inl e
               | Inr _ \<Rightarrow> preflight n t coins amt)
            \<and> check_tx_slp n w t coins amt req
                \<notin> {Inl SlpInputsTooLow, Inl InvalidBurnAmount, Inl SlpInputsTooHigh})"
proof -
  have eq: "check_tx_slp n w t coins amt req =
     (case send_quantities (wallet_input_qty w (inputs t)) (token_output m) coins amt of
        Inl e \<Rightarrow> Inl e
      | Inr _ \<Rightarrow>
         (case send_outputs (outputs t) 0 (length (token_output m)) of
            Inl e \<Rightarrow> Inl e
          | Inr _ \<Rightarrow> preflight n t coins amt))"
    by (rule check_tx_slp_send [OF args step1 msg ids])
  have pf: "preflight n t coins amt
              \<notin> {Inl SlpInputsTooLow, Inl InvalidBurnAmount, Inl SlpInputsTooHigh}"
    by (simp add: preflight_def)
  have so: "send_outputs (outputs t) 0 (length (token_output m)) = Inl e \<Longrightarrow>
              e \<noteq> SlpInputsTooLow \<and> e \<noteq> InvalidBurnAmount \<and> e \<noteq> SlpInputsTooHigh" for e
    using send_outputs_errors [of "outputs t" 0 "length (token_output m)" e] by auto
  have later: "(case send_outputs (outputs t) 0 (length (token_output m)) of
                 Inl e \<Rightarrow> Inl e
               | Inr _ \<Rightarrow> preflight n t coins amt)
              \<notin> {Inl SlpInputsTooLow, Inl InvalidBurnAmount, Inl SlpInputsTooHigh}"
    using pf so by (cases "send_outputs (outputs t) 0 (length (token_output m))") auto
  have low: "wallet_input_qty w (inputs t) < sum_list (token_output m)
              \<longrightarrow> check_tx_slp n w t coins amt req = Inl SlpInputsTooLow"
    using eq by (auto simp: send_quantities_def)
  have burn: "sum_list (token_output m) \<le> wallet_input_qty w (inputs t) \<and> truthy_coins coins
          \<and> amt = PyInt a \<and> wallet_input_qty w (inputs t) - a \<noteq> sum_list (token_output m)
        \<longrightarrow> check_tx_slp n w t coins amt req = Inl InvalidBurnAmount"
    using eq by (auto simp: send_quantities_def)
  have high: "\<not> truthy_coins coins \<and> wallet_input_qty w (inputs t) > sum_list (token_output m)
        \<longrightarrow> check_tx_slp n w t coins amt req = Inl SlpInputsTooHigh"
    using eq by (auto simp: send_quantities_def)
  have pass: "(\<not> truthy_coins coins \<and> wallet_input_qty w (inputs t) = sum_list (token_output m))
          \<or> (truthy_coins coins \<and> amt = PyInt a
              \<and> sum_list (token_output m) \<le> wallet_input_qty w (inputs t)
              \<and> wallet_input_qty w (inputs t) - a = sum_list (token_output m))
        \<longrightarrow> check_tx_slp n w t coins amt req =
              (case send_outputs (outputs t) 0 (length (token_output m)) of
                 Inl e \<Rightarrow> Inl e
               | Inr _ \<Rightarrow> preflight n t coins amt)"
    using eq by (auto simp: send_quantities_def)
  show ?thesis
    using low burn high pass later by metis
qed

lemma ex_send_hyps:
  "check_inputs_in_wallet ex_wallet (inputs (ex_send outs)) = Inr ()"
  "wallet_input_qty ex_wallet (inputs (ex_send outs)) = 100"
  "token_ids_match ex_wallet ''aa'' (inputs (ex_send outs))"
  by (simp_all add: input_skipped_def txo_key_def wallet_input_qty_def token_ids_match_def ex_defs)

text \<open>
  The inputs hold 100 units: the outputs 60 and 40 pass, 60 and 50 are too much, 60 and 30
  pass with a burn of 10, fail with a burn of 5 and are too little without burn.
\<close>

theorem send_quantity_check_witness:
  "wallet_input_qty ex_wallet (inputs (ex_send [60, 40])) = 100
   \<and> check_tx_slp ex_net ex_wallet (ex_send [60, 40]) None PyNone True = Inr True
   \<and> check_tx_slp ex_net ex_wallet (ex_send [60, 50]) None PyNone True = Inl SlpInputsTooLow
   \<and> check_tx_slp ex_net ex_wallet (ex_send [60, 30]) (Some [ex_coin]) (PyInt 10) True = Inr True
   \<and> check_tx_slp ex_net ex_wallet (ex_send [60, 30]) (Some [ex_coin]) (PyInt 5) True
       = Inl InvalidBurnAmount
   \<and> check_tx_slp ex_net ex_wallet (ex_send [60, 30]) None PyNone True = Inl SlpInputsTooHigh"
proof -
  have o: "outputs (ex_send outs)
             = opreturn_out (send_msg 1 ''aa'' (0 # outs)) # replicate (length outs) p2pkh_out"
    for outs by (simp add: ex_send_def)
  have m: "out_slp (opreturn_out (send_msg 1 ''aa'' (0 # outs))) = Parsed (send_msg 1 ''aa'' (0 # outs))"
          "transaction_type (send_msg 1 ''aa'' (0 # outs)) = SEND"
          "token_id_hex (send_msg 1 ''aa'' (0 # outs)) = ''aa''"
          "token_output (send_msg 1 ''aa'' (0 # outs)) = 0 # outs"
    for outs by (simp_all add: opreturn_out_def send_msg_def)
  have so: "send_outputs (opreturn_out (send_msg 1 ''aa'' (0 # [x, y])) # [p2pkh_out, p2pkh_out]) 0 3
              = Inr ()" for x y
    by (simp add: numeral_3_eq_3 opreturn_out_def p2pkh_out_def p2pkh_or_p2sh_def)
  have pf: "preflight ex_net t c a = Inr True" for t c a
    by (simp add: preflight_def ex_net_def)
  show ?thesis
    using send_quantity_check [of None PyNone True ex_wallet "ex_send [60, 40]" _ _
            "send_msg 1 ''aa'' [0, 60, 40]" ex_net 0, OF _ _ _ o]
          send_quantity_check [of None PyNone True ex_wallet "ex_send [60, 50]" _ _
            "send_msg 1 ''aa'' [0, 60, 50]" ex_net 0, OF _ _ _ o]
          send_quantity_check [of "Some [ex_coin]" "PyInt 10" True ex_wallet "ex_send [60, 30]" _ _
            "send_msg 1 ''aa'' [0, 60, 30]" ex_net 10, OF _ _ _ o]
          send_quantity_check [of "Some [ex_coin]" "PyInt 5" True ex_wallet "ex_send [60, 30]" _ _
            "send_msg 1 ''aa'' [0, 60, 30]" ex_net 5, OF _ _ _ o]
          send_quantity_check [of None PyNone True ex_wallet "ex_send [60, 30]" _ _
            "send_msg 1 ''aa'' [0, 60, 30]" ex_net 0, OF _ _ _ o]
    by (simp add: ex_send_hyps o pf opreturn_out_def send_msg_def p2pkh_out_def p2pkh_or_p2sh_def)
qed

section \<open>Properties of the validator's decision\<close>

text \<open>
  Claim C10. In the per-instance validator, when the current child job records no
  invalid parent (\<open>nft_parent_validity \<le> 1\<close>) and no forced failure, and the node's own
  contribution is the integer 0, \<open>validate\<close> returns Valid for every \<open>inputs_info\<close> and
  leaves the state as it is: nothing is fetched, and the parent's validity is not read.
\<close>

theorem validate_zero_contribution:
  assumes "nft_parent_validity (st_job st) \<le> 1"
    and "forced_failure_val (st_job st) = None \<or> forced_failure_val (st_job st) = Some 0"
  shows "validate e self_token_id_hex (Some st) (Info_sum 0) inputs_info = Inr (Some (True, 1), st)"
  using assms by (auto simp: validate_def validate_unforced_def)

theorem validate_zero_contribution_witness:
  "nft_parent_validity (st_job (ex_fresh_state ''gg'' 1 [] [])) \<le> 1
   \<and> forced_failure_val (st_job (ex_fresh_state ''gg'' 1 [] [])) = None
   \<and> validate (ex_env True) ''nn'' (Some (ex_fresh_state ''gg'' 1 [] [])) (Info_sum 0) [(0, 0, 7)]
       = Inr (Some (True, 1), ex_fresh_state ''gg'' 1 [] [])"
  using validate_zero_contribution [of "ex_fresh_state ''gg'' 1 [] []" "ex_env True" "''nn''" "[(0, 0, 7)]"]
  by (simp add: ex_fresh_state_def ex_fresh_job_def)

lemma validate_reaches_send:
  assumes "nft_parent_validity (st_job st) \<le> 1"
    and "forced_failure_val (st_job st) = None \<or> forced_failure_val (st_job st) = Some 0"
    and "m \<noteq> 0"
    and "nft_parent_tx (st_job st) = Some p" "outputs p = out0 # outs" "out_slp out0 = Parsed pm"
    and "\<not> parent_insufficient pm"
  shows "validate e self_token_id_hex (Some st) (Info_sum m) inputs_info =
           (case validate_send m inputs_info of Inl err \<Rightarrow> Inl err | Inr res \<Rightarrow> Inr (res, st))"
  using assms by (auto simp: validate_def validate_unforced_def validate_parent_known_def)

text \<open>
  Claim C4, amended. For a SEND node with own contribution \<open>m\<close> that reaches the
  comparison of the sums (the parent transaction is known; in the per-instance validator
  also: no invalid parent, no forced failure, \<open>m\<close> nonzero, a parent message that carries
  at least one unit): when the contributions of the Unknown and Valid inputs sum to less
  than \<open>m\<close> the result is Invalid with code 3; otherwise the per-instance validator raises
  when the contributions of the Valid inputs sum to more than 1; otherwise the result is
  Valid when the Valid inputs reach \<open>m\<close>, and pending when they do not. The module-global
  validator has no such raise.
\<close>

theorem validate_send_decision:
  assumes "lv_nft_parent_tx v \<noteq> None"
    and "nft_parent_validity (st_job st) \<le> 1"
    and "forced_failure_val (st_job st) = None \<or> forced_failure_val (st_job st) = Some 0"
    and "m \<noteq> 0"
    and "nft_parent_tx (st_job st) = Some p" "outputs p = out0 # outs" "out_slp out0 = Parsed pm"
    and "\<not> parent_insufficient pm"
  shows "validate_lib v (Info_sum m) inputs_info =
           (if insum_all inputs_info < m then Inr (Some (False, 3), False)
            else if insum_valid inputs_info \<ge> m then Inr (Some (True, 1), False)
            else Inr (None, False))
         \<and> validate e self_token_id_hex (Some st) (Info_sum m) inputs_info =
           (if insum_all inputs_info < m then Inr (Some (False, 3), st)
            else if insum_valid inputs_info > 1 then Inl Exception
            else if insum_valid inputs_info \<ge> m then Inr (Some (True, 1), st)
            else Inr (None, st))"
proof -
  have old: "validate_lib v (Info_sum m) inputs_info =
           (if insum_all inputs_info < m then Inr (Some (False, 3), False)
            else if insum_valid inputs_info \<ge> m then Inr (Some (True, 1), False)
            else Inr (None, False))"
    using assms(1) by (simp add: validate_lib_def validate_send_lib_def)
  have new: "validate e self_token_id_hex (Some st) (Info_sum m) inputs_info =
           (if insum_all inputs_info < m then Inr (Some (False, 3), st)
            else if insum_valid inputs_info > 1 then Inl Exception
            else if insum_valid inputs_info \<ge> m then Inr (Some (True, 1), st)
            else Inr (None, st))"
    unfolding validate_reaches_send [OF assms(2-8)]
    by (simp add: validate_send_def)
  show ?thesis using old new by simp
qed

lemma ex_state_hyps:
  "nft_parent_validity (st_job (ex_state 1)) \<le> 1"
  "forced_failure_val (st_job (ex_state 1)) = None"
  "nft_parent_tx (st_job (ex_state 1)) = Some ex_group_genesis"
  "outputs ex_group_genesis = opreturn_out (genesis_msg 129 1) # [p2pkh_out, p2pkh_out]"
  "out_slp (opreturn_out (genesis_msg 129 1)) = Parsed (genesis_msg 129 1)"
  "\<not> parent_insufficient (genesis_msg 129 1)"
  "lv_nft_parent_tx ex_lib_validator \<noteq> None"
  by (simp_all add: parent_insufficient_def ex_defs)

lemma ex_sums:
  "insum_all [(0, 1, 1)] = 1" "insum_valid [(0, 1, 1)] = 1"
  "insum_all [(0, 0, 1)] = 1" "insum_valid [(0, 0, 1)] = 0"
  "insum_all [(0, 3, 1)] = 0" "insum_valid [(0, 3, 1)] = 0"
  "insum_all [(0, 1, 2)] = 2" "insum_valid [(0, 1, 2)] = 2"
  by (simp_all add: insum_all_def insum_valid_def)

theorem validate_send_decision_witness:
  "validate_lib ex_lib_validator (Info_sum 1) [(0, 1, 1)] = Inr (Some (True, 1), False)
   \<and> validate (ex_env True) ''nn'' (Some (ex_state 1)) (Info_sum 1) [(0, 1, 1)]
       = Inr (Some (True, 1), ex_state 1)
   \<and> validate (ex_env True) ''nn'' (Some (ex_state 1)) (Info_sum 1) [(0, 0, 1)]
       = Inr (None, ex_state 1)
   \<and> validate (ex_env True) ''nn'' (Some (ex_state 1)) (Info_sum 1) [(0, 3, 1)]
       = Inr (Some (False, 3), ex_state 1)
   \<and> validate (ex_env True) ''nn'' (Some (ex_state 1)) (Info_sum 2) [(0, 1, 2)]
       = Inl Exception"
  using validate_send_decision [OF ex_state_hyps(7) ex_state_hyps(1) disjI1 [OF ex_state_hyps(2)] _
          ex_state_hyps(3,4,5,6), of 1 "[(0, 1, 1)]" "ex_env True" "''nn''"]
        validate_send_decision [OF ex_state_hyps(7) ex_state_hyps(1) disjI1 [OF ex_state_hyps(2)] _
          ex_state_hyps(3,4,5,6), of 1 "[(0, 0, 1)]" "ex_env True" "''nn''"]
        validate_send_decision [OF ex_state_hyps(7) ex_state_hyps(1) disjI1 [OF ex_state_hyps(2)] _
          ex_state_hyps(3,4,5,6), of 1 "[(0, 3, 1)]" "ex_env True" "''nn''"]
        validate_send_decision [OF ex_state_hyps(7) ex_state_hyps(1) disjI1 [OF ex_state_hyps(2)] _
          ex_state_hyps(3,4,5,6), of 2 "[(0, 1, 2)]" "ex_env True" "''nn''"]
  by (simp add: ex_sums)

text \<open>
  Claim C4 as stated fails on the per-instance validator: with \<open>m = 2\<close> and one Valid
  input of 2 units, both sums reach \<open>m\<close>, and \<open>validate\<close> raises instead of returning Valid.
\<close>

theorem validate_send_valid_counterexample:
  "\<not> insum_all [(0, 1, 2)] < 2 \<and> insum_valid [(0, 1, 2)] \<ge> 2
   \<and> validate (ex_env True) ''nn'' (Some (ex_state 1)) (Info_sum 2) [(0, 1, 2)] = Inl Exception"
  by (simp add: validate_def validate_unforced_def validate_parent_known_def validate_send_def
      parent_insufficient_def ex_sums ex_defs)

text \<open>
  Claim C6, amended. In the per-instance validator, a SEND node that reaches the
  comparison of the sums and whose Unknown and Valid inputs reach \<open>m\<close> makes \<open>validate\<close>
  raise when the contributions of the Valid inputs sum to more than 1.
\<close>

theorem validate_raises_on_excess:
  assumes "nft_parent_validity (st_job st) \<le> 1"
    and "forced_failure_val (st_job st) = None \<or> forced_failure_val (st_job st) = Some 0"
    and "m \<noteq> 0"
    and "nft_parent_tx (st_job st) = Some p" "outputs p = out0 # outs" "out_slp out0 = Parsed pm"
    and "\<not> parent_insufficient pm"
    and "m \<le> insum_all inputs_info"
    and "insum_valid inputs_info > 1"
  shows "validate e self_token_id_hex (Some st) (Info_sum m) inputs_info = Inl Exception"
  unfolding validate_reaches_send [OF assms(1-7)]
  using assms(8,9) by (simp add: validate_send_def)

theorem validate_raises_on_excess_witness:
  "(2::int) \<le> insum_all [(0, 1, 2)] \<and> insum_valid [(0, 1, 2)] > 1
   \<and> validate (ex_env False) ''nn'' (Some (ex_state 1)) (Info_sum 2) [(0, 1, 2)] = Inl Exception"
  using validate_raises_on_excess [OF ex_state_hyps(1) disjI1 [OF ex_state_hyps(2)] _
          ex_state_hyps(3,4,5,6), of 2 "[(0, 1, 2)]" "ex_env False" "''nn''"]
  by (simp add: ex_sums)

text \<open>
  Claim C6 as stated fails: with Valid inputs of 2 units, the per-instance validator
  returns Invalid with code 3 for \<open>m = 5\<close>, since the test of insufficient inputs comes
  first, and the module-global validator, which has no such test, returns Valid for
  \<open>m = 2\<close>.
\<close>

theorem validate_excess_counterexample:
  "insum_valid [(0, 1, 2)] > 1
   \<and> validate (ex_env True) ''nn'' (Some (ex_state 1)) (Info_sum 5) [(0, 1, 2)]
       = Inr (Some (False, 3), ex_state 1)
   \<and> validate_lib ex_lib_validator (Info_sum 2) [(0, 1, 2)] = Inr (Some (True, 1), False)"
  by (simp add: validate_def validate_unforced_def validate_parent_known_def validate_send_def
      validate_lib_def validate_send_lib_def parent_insufficient_def ex_sums ex_defs)

section \<open>Properties of the classification\<close>

text \<open>
  The per-instance \<open>get_info\<close> on a GENESIS of token type 65 whose id is the validator's:
  it prunes as malformed exactly when a baton is declared, or the decimals are nonzero,
  or the quantity is not 1, and otherwise no input is relevant and the own contribution is
  the GENESIS marker.
\<close>

lemma get_info_genesis:
  assumes "outputs t = out0 # outs" "out_slp out0 = Parsed m" "token_type m = 65"
    and "transaction_type m = GENESIS"
    and "\<not> token_id_mismatch self_token_id_hex diff_testing_mode (txid_fast t)"
  shows "(get_info self_token_id_hex t diff_testing_mode = Prune 2)
           = (mint_baton_vout m \<noteq> None \<or> decimals m \<noteq> 0 \<or> initial_token_mint_quantity m \<noteq> 1)"
    and "\<not> (mint_baton_vout m \<noteq> None \<or> decimals m \<noteq> 0 \<or> initial_token_mint_quantity m \<noteq> 1)
         \<Longrightarrow> get_info self_token_id_hex t diff_testing_mode
               = Info (replicate (length (inputs t)) False) Info_GENESIS
                      (fit_outputs [None, Some 1] (length (outputs t)))"
  using assms by (auto simp: get_info_def)

text \<open>
  Claim C5. The claim asks that a GENESIS of token type 65 is pruned as malformed when
  its quantity is not 1. The module-global \<open>get_info\<close> tests \<open>> 1\<close> where the per-instance
  one tests \<open>\<noteq> 1\<close>: the GENESIS of quantity 0, without baton and decimals, is classified
  with the GENESIS marker by the former and pruned by the latter.
\<close>

theorem get_info_lib_genesis_zero:
  "get_info_lib (Some ''n0'') (ex_nft_genesis ''n0'' 0) = Info [False] Info_GENESIS [None, Some 0]
   \<and> get_info (Some ''n0'') (ex_nft_genesis ''n0'' 0) False = Prune 2"
  by (simp add: get_info_lib_def get_info_def fit_outputs_def ex_defs)

text \<open>
  Claim C8, amended. The module-global and the per-instance \<open>get_info\<close> return the same
  result on a transaction exactly when it is not one of those on which the rules are
  written differently: a SEND of token type 65 whose declared outputs are not two with a
  1 in second place (pruned by the former only), or a GENESIS of token type 65 without
  baton and decimals whose quantity is below 1 (pruned by the latter only).
\<close>

theorem get_info_agreement:
  "(get_info_lib self_token_id_hex t = get_info self_token_id_hex t False)
     = (\<not> nft_rules_differ t)"
proof (cases "outputs t")
  case Nil
  then show ?thesis by (simp add: get_info_lib_def get_info_def nft_rules_differ_def)
next
  case (Cons out0 outs)
  show ?thesis
  proof (cases "out_slp out0")
    case (Parsed m)
    show ?thesis
    proof (cases "transaction_type m")
      case GENESIS
      then show ?thesis using Cons Parsed
        by (auto simp: get_info_lib_def get_info_def nft_rules_differ_def token_id_mismatch_def)
    next
      case MINT
      then show ?thesis using Cons Parsed
        by (simp add: get_info_lib_def get_info_def nft_rules_differ_def)
    next
      case SEND
      then show ?thesis using Cons Parsed
        by (auto simp: get_info_lib_def get_info_def nft_rules_differ_def token_id_mismatch_def)
    next
      case COMMIT
      then show ?thesis using Cons Parsed
        by (simp add: get_info_lib_def get_info_def nft_rules_differ_def)
    qed
  next
    case SlpInvalidOutputMessage
    then show ?thesis using Cons by (simp add: get_info_lib_def get_info_def nft_rules_differ_def)
  next
    case SlpUnsupportedSlpTokenType
    then show ?thesis using Cons by (simp add: get_info_lib_def get_info_def nft_rules_differ_def)
  qed
qed

text \<open>The two agree on the SEND of one unit and differ on a SEND with three declared outputs.\<close>

theorem get_info_agreement_witness:
  "\<not> nft_rules_differ (ex_nft_send [0, 1])
   \<and> get_info_lib (Some ''nn'') (ex_nft_send [0, 1]) = get_info (Some ''nn'') (ex_nft_send [0, 1]) False
   \<and> nft_rules_differ (ex_nft_send [0, 1, 0])
   \<and> get_info_lib (Some ''nn'') (ex_nft_send [0, 1, 0])
       \<noteq> get_info (Some ''nn'') (ex_nft_send [0, 1, 0]) False"
  using get_info_agreement [of "Some ''nn''" "ex_nft_send [0, 1]"]
        get_info_agreement [of "Some ''nn''" "ex_nft_send [0, 1, 0]"]
  by (simp add: nft_rules_differ_def ex_defs)

text \<open>
  Claim C8 as stated fails: the SEND of token type 65 that declares the outputs 0, 1, 0 is
  pruned as malformed by the module-global \<open>get_info\<close> and classified by the per-instance one.
\<close>

theorem get_info_differ_counterexample:
  "get_info_lib (Some ''nn'') (ex_nft_send [0, 1, 0]) = Prune 2
   \<and> get_info (Some ''nn'') (ex_nft_send [0, 1, 0]) False = Info [True] (Info_sum 1) [Some 0, Some 1]"
  by (simp add: get_info_lib_def get_info_def token_id_mismatch_def fit_outputs_def ex_defs)

section \<open>Properties of the parent resolution\<close>

lemma bad_parent_cases:
  "bad_parent m k =
     (token_type m \<noteq> 129
      \<or> (transaction_type m \<in> {GENESIS, MINT} \<and> k \<noteq> 1)
      \<or> (transaction_type m = SEND \<and> k \<ge> length (token_output m)))"
  by (auto simp: bad_parent_def)

lemma parent_dl_cb_bad:
  assumes g: "genesis_tx j = Some g" "inputs g = in0 # ins"
    and fresh: "tx_tokinfo w (txid_fast p) = None"
    and bad: "try_parse_first p = None
              \<or> (\<exists>m. try_parse_first p = Some m \<and> bad_parent m (prevout_n in0))"
  shows "parent_dl_cb (RespResult p) w j
           = Inr (store_tx w p, j\<lparr>nft_parent_validity := 4, nft_parent_tx := Some p\<rparr>)"
proof -
  have f: "tx_tokinfo (store_tx w p) (txid_fast p) = None"
    using fresh by (simp add: store_tx_def)
  from bad show ?thesis
  proof
    assume "try_parse_first p = None"
    then show ?thesis by (simp add: parent_dl_cb_def f Let_def)
  next
    assume "\<exists>m. try_parse_first p = Some m \<and> bad_parent m (prevout_n in0)"
    then obtain m where "try_parse_first p = Some m" "bad_parent m (prevout_n in0)" by blast
    then show ?thesis using g by (simp add: parent_dl_cb_def f Let_def)
  qed
qed

text \<open>
  The test that \<open>download_nft_parent_tx\<close> makes when the wallet has no \<open>tx_tokinfo\<close>
  entry for the parent \<open>p\<close>: a parent whose first output does not parse, or that is not
  of token type 129, or whose output spent by the child's genesis carries no token, is
  recorded with validity 4, and every later \<open>validate\<close> of the job returns Invalid with
  code 4.
\<close>

lemma parent_test_without_entry:
  assumes w: "st_wallet st = Some w"
    and g: "genesis_tx (st_job st) = Some g" "inputs g = in0 # ins"
    and r: "(case nw_transactions w (prevout_hash in0) of
               Some t \<Rightarrow> RespResult t
             | None \<Rightarrow> fetch e (prevout_hash in0)) = RespResult p"
    and fresh: "tx_tokinfo w (txid_fast p) = None"
    and bad: "try_parse_first p = None
              \<or> (\<exists>m. try_parse_first p = Some m
                     \<and> (token_type m \<noteq> 129
                         \<or> (transaction_type m \<in> {GENESIS, MINT} \<and> prevout_n in0 \<noteq> 1)
                         \<or> (transaction_type m = SEND
                             \<and> prevout_n in0 \<ge> length (token_output m))))"
    and st': "st' = st\<lparr>st_wallet := Some (store_tx w p),
                       st_job := (st_job st)\<lparr>nft_parent_validity := 4, nft_parent_tx := Some p\<rparr>,
                       st_signals := st_signals st
                         @ (if slp_validity_signal e
                            then [(txid_fast p, 4), (txid_fast g, 4), (root_txid (st_job st), 4)]
                            else [])\<rparr>"
  shows "download_nft_parent_tx e st = Inr st'
         \<and> validate e self_token_id_hex (Some st') myinfo inputs_info = Inr (Some (False, 4), st')"
proof -
  have bad': "try_parse_first p = None
              \<or> (\<exists>m. try_parse_first p = Some m \<and> bad_parent m (prevout_n in0))"
    using bad by (simp add: bad_parent_cases)
  note cb = parent_dl_cb_bad [OF g fresh bad']
  have dl: "download_nft_parent_tx e st = Inr st'"
    using w g r
    by (simp add: download_nft_parent_tx_def cb start_NFT_parent_job_def Let_def st')
  have v: "nft_parent_validity (st_job st') = 4"
    by (simp add: st')
  have "validate e self_token_id_hex (Some st') myinfo inputs_info = Inr (Some (False, 4), st')"
    by (simp add: validate_def v)
  with dl show ?thesis by simp
qed


text \<open>
  Claim C7. The claim asks that a child whose genesis does not spend the expected
  outpoint of its parent gets the parent validity 4 and is resumed with that result. The
  code makes the test only while the wallet has no \<open>tx_tokinfo\<close> entry for the parent,
  and stores that entry itself when the test passes. The first child spends output 1 of
  the group genesis \<open>''gg''\<close>, which leaves the entry; the second child then spends
  output 2, for which the test would fail: it is not made, the parent validity is that of
  the nested job, no code 4 is emitted, and the child's genesis is decided Valid.
\<close>

theorem parent_test_skipped_with_entry:
  "bad_parent (genesis_msg 129 1) 2
   \<and> try_parse_first ex_group_genesis = Some (genesis_msg 129 1)
   \<and> (case download_nft_parent_tx (ex_env True) (ex_fresh_state ''gg'' 1 [ex_group_genesis] []) of
         Inl _ \<Rightarrow> False
       | Inr s1 \<Rightarrow>
           nft_parent_validity (st_job s1) = 1
           \<and> (case download_nft_parent_tx (ex_env True)
                     (s1\<lparr>st_job := ex_second_job, st_signals := []\<rparr>) of
                 Inl _ \<Rightarrow> False
               | Inr s2 \<Rightarrow>
                   nft_parent_validity (st_job s2) = 1
                   \<and> st_signals s2 = [(''gg'', 1)]
                   \<and> validate (ex_env True) ''n2'' (Some s2) Info_GENESIS []
                       = Inr (Some (True, 1), s2)))"
  by (simp add: bad_parent_def try_parse_first_def download_nft_parent_tx_def parent_dl_cb_def
      store_tx_def start_NFT_parent_job_def parent_job_callback_def add_token_type_def
      validate_def validate_unforced_def validate_parent_known_def parent_insufficient_def
      Let_def ex_defs)

end
